theory Spec2Isabelle
  imports Main "HOL-Library.Sublist"
begin

section \<open>Python values and exceptions\<close>

text \<open>
  The loader of \<^verbatim>\<open>objectstoreaccess.py\<close> is embedded as functions that pass the observable
  state (the rows committed to the database, the POSTs sent to the findNeighbour4 server, the
  calls of \<^verbatim>\<open>time.sleep\<close>) explicitly and that return an exception as a value.

  Two comparisons of the source are between Python values of different built-in types
  (\<^verbatim>\<open>completed == 1\<close> with \<^verbatim>\<open>completed\<close> a list, \<^verbatim>\<open>n_inserted == 0\<close> with
  \<^verbatim>\<open>n_inserted\<close> a dict). The values concerned are kept as a small datatype; Python's
  \<^verbatim>\<open>==\<close> on ints, strings, lists and dicts is equality of the values, and values of
  different types are unequal.
\<close>

datatype pyval =
    PyInt int
  | PyStr string
  | PyList "pyval list"
  | PyDict "(string \<times> pyval) list"

definition py_eq :: "pyval \<Rightarrow> pyval \<Rightarrow> bool" where
  "py_eq x y = (x = y)"

datatype error =
    ServiceError string
  | RequestException
  | HTTPError int
  | TypeError
  | AttributeError
  | UnboundLocalError string

section \<open>The database tables\<close>

text \<open>
  \<^verbatim>\<open>FN4BatchLoadCheck\<close> and \<^verbatim>\<open>FN4LoadAttempt\<close>. The surrogate keys and the
  \<^verbatim>\<open>TIMESTAMP\<close> columns (all filled from \<^verbatim>\<open>datetime.datetime.now()\<close>) are left out: the
  order of the commits is kept by the list \<open>db\<close> below. The dictionary \<^verbatim>\<open>res\<close> of the
  loop body has every column of \<^verbatim>\<open>FN4LoadAttempt\<close> but \<^verbatim>\<open>completed\<close>, which is added
  last; the row type extends it by that column.
\<close>

record FN4BatchLoadCheck =
  bc_host_name :: string
  bc_findneighbour_server_url :: string
  bc_batch_size :: nat
  bc_number_in_server :: nat

record res =
  host_name :: string
  findneighbour_server_url :: string
  parse_status :: string
  batch_sample_number :: nat
  batch_size :: nat
  seqid :: "string option"
  file_name :: string
  len_seq :: "nat option"
  first_128_chars :: string
  fn4id :: "string option"
  insert_status_code :: "int option"

record FN4LoadAttempt = res +
  completed :: int

datatype db_row =
    BatchLoadCheck FN4BatchLoadCheck
  | LoadAttempt FN4LoadAttempt

fun load_attempts :: "db_row list \<Rightarrow> FN4LoadAttempt list" where
  "load_attempts [] = []"
| "load_attempts (BatchLoadCheck b # rows) = load_attempts rows"
| "load_attempts (LoadAttempt a # rows) = a # load_attempts rows"

fun batch_checks :: "db_row list \<Rightarrow> FN4BatchLoadCheck list" where
  "batch_checks [] = []"
| "batch_checks (BatchLoadCheck b # rows) = b # batch_checks rows"
| "batch_checks (LoadAttempt a # rows) = batch_checks rows"

section \<open>The observable state and the collaborators\<close>

text \<open>
  \<open>db\<close>: the rows in the order of their \<^verbatim>\<open>tls.commit()\<close>; \<open>posts\<close>: the
  \<^verbatim>\<open>(guid, seq)\<close> payloads POSTed to \<^verbatim>\<open>/api/v2/insert\<close>; \<open>sleeps\<close>: the arguments
  of \<^verbatim>\<open>time.sleep\<close>.
\<close>

record world =
  db :: "db_row list"
  posts :: "(string \<times> string) list"
  sleeps :: "nat list"

text \<open>
  What one pass sees of the libraries and services outside the repository (OCI object
  storage, the findNeighbour4 server, Biopython, the socket library), as parameters:
  \<^item> \<open>self_host_name\<close>, \<open>self_findneighbour_server_url\<close>: the attributes of the
    \<^verbatim>\<open>ObjectStore2FN4\<close> object;
  \<^item> \<open>list_objects\<close>: the names of the objects of the bucket in ascending
    \<^verbatim>\<open>time_created\<close>, or the exception of the listing call;
  \<^item> \<open>get_object\<close>: the decoded content of an object, or the exception of the call;
  \<^item> \<open>SeqIO_parse\<close>: the records \<^verbatim>\<open>SeqIO.parse(f, "fasta")\<close> yields on a content;
  \<^item> \<open>get_guids\<close>: the status code and decoded body of \<^verbatim>\<open>GET /api/v2/guids\<close>, or
    the exception of the request;
  \<^item> \<open>post_insert\<close>: the status code of \<^verbatim>\<open>POST /api/v2/insert\<close>, or the exception of
    the request.
\<close>

record SeqRecord =
  rec_id :: string
  rec_seq :: string

record env =
  self_host_name :: string
  self_findneighbour_server_url :: string
  list_objects :: "error + string list"
  get_object :: "string \<Rightarrow> error + string"
  SeqIO_parse :: "string \<Rightarrow> SeqRecord list"
  get_guids :: "error + int \<times> string list"
  post_insert :: "string \<Rightarrow> string \<Rightarrow> error + int"

section \<open>BucketAccess\<close>

text \<open>
  \<^verbatim>\<open>list_files\<close> returns \<^verbatim>\<open>None\<close> when the frame built from the listing has no
  \<^verbatim>\<open>time_created\<close> column, which is when the bucket holds no object.
\<close>

definition list_files :: "env \<Rightarrow> error + string list option" where
  "list_files e =
     (case list_objects e of
        Inl x \<Rightarrow> Inl x
      | Inr objects \<Rightarrow> if objects = [] then Inr None else Inr (Some objects))"

definition load_bucket_into_string :: "env \<Rightarrow> string \<Rightarrow> error + string" where
  "load_bucket_into_string e object_name = get_object e object_name"

section \<open>ObjectStore2FN4: the HTTP helpers\<close>

text \<open>
  \<^verbatim>\<open>Response.raise_for_status\<close> of the requests library raises for the codes 400 to 599.
\<close>

definition raise_for_status :: "int \<Rightarrow> error + unit" where
  "raise_for_status status_code =
     (if 400 \<le> status_code \<and> status_code < 600 then Inl (HTTPError status_code) else Inr ())"

text \<open>
  \<^verbatim>\<open>_getpost\<close>, from the reply of the server on: codes from 500 go through
  \<^verbatim>\<open>raise_for_status\<close>, lower ones are let through.
\<close>

definition getpost_check :: "int \<Rightarrow> error + int" where
  "getpost_check status_code =
     (if status_code \<ge> 500 then
        (case raise_for_status status_code of Inl x \<Rightarrow> Inl x | Inr u \<Rightarrow> Inr status_code)
      else Inr status_code)"

text \<open>\<^verbatim>\<open>_insert\<close> (through \<^verbatim>\<open>_post\<close> and \<^verbatim>\<open>_getpost\<close>); \<open>seq\<close> is \<^verbatim>\<open>None\<close> or a string.\<close>

definition priv_insert :: "env \<Rightarrow> string \<Rightarrow> string option \<Rightarrow> world \<Rightarrow> (error + int) \<times> world" where
  "priv_insert e guid seq w =
     (case seq of
        None \<Rightarrow> (Inl TypeError, w)
      | Some s \<Rightarrow>
          (let w' = w\<lparr>posts := posts w @ [(guid, s)]\<rparr> in
           case post_insert e guid s of
             Inl x \<Rightarrow> (Inl x, w')
           | Inr status_code \<Rightarrow> (getpost_check status_code, w')))"

text \<open>\<^verbatim>\<open>guids\<close>: \<^verbatim>\<open>self._decode(self._getpost("/api/v2/guids", method="GET"))\<close>.\<close>

definition guids :: "env \<Rightarrow> error + string list" where
  "guids e =
     (case get_guids e of
        Inl x \<Rightarrow> Inl x
      | Inr (status_code, body) \<Rightarrow>
          (case getpost_check status_code of
             Inl x \<Rightarrow> Inl x
           | Inr c \<Rightarrow>
               (case raise_for_status c of Inl x \<Rightarrow> Inl x | Inr u \<Rightarrow> Inr body)))"

section \<open>filename2fn4id\<close>

text \<open>\<^verbatim>\<open>s.replace(old, "")\<close>: every occurrence of \<open>old\<close>, from the left, is removed.\<close>

function str_remove :: "string \<Rightarrow> string \<Rightarrow> string" where
  "str_remove old s =
     (if old = [] \<or> s = [] then s
      else if prefix old s then str_remove old (drop (length old) s)
      else hd s # str_remove old (tl s))"
  by pat_completeness auto
termination
  by (relation "measure (\<lambda>(old, s). length s)") auto

declare str_remove.simps [simp del]

definition filename2fn4id :: "string \<Rightarrow> string option" where
  "filename2fn4id x =
     (if prefix ''GPAS_SP3'' x then Some (str_remove ''GPAS_SP3|'' x) else None)"

section \<open>insert_files_into_server\<close>

text \<open>\<^verbatim>\<open>filename.split(".")[0]\<close>: the part before the first dot.\<close>

definition split0 :: "string \<Rightarrow> string" where
  "split0 filename = takeWhile (\<lambda>c. c \<noteq> CHR ''.'') filename"

text \<open>
  The query for the completed samples. Its third filter is \<^verbatim>\<open>.filter(completed == 1)\<close>,
  where \<^verbatim>\<open>completed\<close> is the local variable bound to \<^verbatim>\<open>list()\<close> three statements
  before (not the column \<^verbatim>\<open>FN4LoadAttempt.completed\<close>): Python evaluates the argument
  \<^verbatim>\<open>[] == 1\<close> to \<^verbatim>\<open>False\<close> before the query is built, SQLAlchemy turns the constant
  into the SQL expression \<^verbatim>\<open>false()\<close>, and the constant is the criterion of every row.
\<close>

definition query_completed :: "env \<Rightarrow> world \<Rightarrow> string option list" where
  "query_completed e w =
     map fn4id
       (filter (\<lambda>r. host_name r = self_host_name e
                  \<and> findneighbour_server_url r = self_findneighbour_server_url e
                  \<and> py_eq (PyList []) (PyInt 1))
          (load_attempts (db w)))"

text \<open>
  Lines 689 to 721: \<^verbatim>\<open>to_add = fn4ids - set(guids)\<close>, then \<^verbatim>\<open>to_add - completed\<close>; a
  \<^verbatim>\<open>None\<close> of the \<^verbatim>\<open>fn4id\<close> column equals no string.
\<close>

definition to_add_of :: "string list \<Rightarrow> string list \<Rightarrow> string option list \<Rightarrow> string set" where
  "to_add_of current_files guids_list completed_list =
     (let fn4ids = set (map split0 current_files);
          to_add = fn4ids - set guids_list
      in Set.filter (\<lambda>x. Some x \<notin> set completed_list) to_add)"

text \<open>The loop over \<^verbatim>\<open>SeqIO.parse(f, "fasta")\<close>, on \<^verbatim>\<open>(nFiles, res, seq)\<close>.\<close>

fun parse_records :: "string \<Rightarrow> SeqRecord list \<Rightarrow> nat \<times> res \<times> string option \<Rightarrow> nat \<times> res \<times> string option" where
  "parse_records fname [] st = st"
| "parse_records fname (record # records) (nFiles, r, seq) =
     (let nFiles = nFiles + 1 in
      if nFiles > 1 then
        parse_records fname records (nFiles, r\<lparr>parse_status := ''Failed, multifasta''\<rparr>, seq)
      else
        parse_records fname records
          (nFiles,
           r\<lparr>parse_status := ''Success'',
             seqid := Some (rec_id record),
             file_name := fname,
             len_seq := Some (length (rec_seq record))\<rparr>,
           Some (rec_seq record)))"

definition initial_res :: "env \<Rightarrow> nat \<Rightarrow> nat \<Rightarrow> string \<Rightarrow> string \<Rightarrow> res" where
  "initial_res e n i fname file_content =
     \<lparr>host_name = self_host_name e,
      findneighbour_server_url = self_findneighbour_server_url e,
      parse_status = ''Failed'',
      batch_sample_number = i,
      batch_size = n,
      seqid = None,
      file_name = fname,
      len_seq = None,
      first_128_chars = take 128 file_content,
      fn4id = None,
      insert_status_code = None\<rparr>"

text \<open>Lines 746 to 781: the initial \<^verbatim>\<open>res\<close> and the loop over the records of the content.\<close>

definition content_parser :: "env \<Rightarrow> nat \<Rightarrow> nat \<Rightarrow> string \<Rightarrow> string \<Rightarrow> nat \<times> res \<times> string option" where
  "content_parser e n i fname file_content =
     parse_records fname (SeqIO_parse e file_content)
       (0, initial_res e n i fname file_content, None)"

text \<open>Lines 783 to 787; \<^verbatim>\<open>filename2fn4id\<close> is applied to \<^verbatim>\<open>res["seqid"]\<close>.\<close>

definition check_seqid :: "res \<Rightarrow> error + res" where
  "check_seqid r =
     (if parse_status r = ''Success'' then
        (case seqid r of
           None \<Rightarrow> Inl AttributeError
         | Some x \<Rightarrow>
             (let r = r\<lparr>fn4id := filename2fn4id x\<rparr> in
              if fn4id r = None then
                Inr (r\<lparr>parse_status := ''Failed, seqid does not start with GPAS''\<rparr>)
              else Inr r))
      else Inr r)"

text \<open>Lines 789 to 794.\<close>

definition submit :: "env \<Rightarrow> res \<Rightarrow> string option \<Rightarrow> world \<Rightarrow> (error + res) \<times> world" where
  "submit e r seq w =
     (case fn4id r of
        None \<Rightarrow> (Inr r, w)
      | Some guid \<Rightarrow>
          (case priv_insert e guid seq w of
             (Inl x, w') \<Rightarrow> (Inl x, w')
           | (Inr status_code, w') \<Rightarrow> (Inr (r\<lparr>insert_status_code := Some status_code\<rparr>), w')))"

text \<open>Lines 796 to 803.\<close>

definition move_file_of :: "res \<Rightarrow> int" where
  "move_file_of r =
     (let move_file = 0;
          move_file = (if \<not> parse_status r = ''Success'' then 1 else move_file);
          move_file = (if insert_status_code r = Some 200 then 1 else move_file)
      in move_file)"

definition attempt_row :: "res \<Rightarrow> FN4LoadAttempt" where
  "attempt_row r = res.extend r (FN4LoadAttempt.fields (move_file_of r))"

text \<open>
  The body of the loop over the files: the record that is written, or the exception that
  leaves the loop, with the state at that point.
\<close>

definition build_attempt :: "env \<Rightarrow> nat \<Rightarrow> nat \<Rightarrow> string \<Rightarrow> world \<Rightarrow> (error + FN4LoadAttempt) \<times> world" where
  "build_attempt e n i fname w =
     (case load_bucket_into_string e fname of
        Inl x \<Rightarrow> (Inl x, w)
      | Inr file_content \<Rightarrow>
          (case content_parser e n i fname file_content of
             (nFiles, r, seq) \<Rightarrow>
               (case check_seqid r of
                  Inl x \<Rightarrow> (Inl x, w)
                | Inr r \<Rightarrow>
                    (case submit e r seq w of
                       (Inl x, w') \<Rightarrow> (Inl x, w')
                     | (Inr r, w') \<Rightarrow> (Inr (attempt_row r), w')))))"

definition process_file :: "env \<Rightarrow> nat \<Rightarrow> nat \<Rightarrow> string \<Rightarrow> world \<Rightarrow> (error + unit) \<times> world" where
  "process_file e n i fname w =
     (case build_attempt e n i fname w of
        (Inl x, w') \<Rightarrow> (Inl x, w')
      | (Inr row, w') \<Rightarrow> (Inr (), w'\<lparr>db := db w' @ [LoadAttempt row]\<rparr>))"

text \<open>
  \<^verbatim>\<open>for i, file_name in enumerate(current_files["name"])\<close>; the third argument is the
  binding of \<^verbatim>\<open>i\<close>, \<^verbatim>\<open>None\<close> while the variable is unbound.
\<close>

fun process_files :: "env \<Rightarrow> nat \<Rightarrow> (nat \<times> string) list \<Rightarrow> nat option \<Rightarrow> world \<Rightarrow> (error + nat option) \<times> world" where
  "process_files e n [] i w = (Inr i, w)"
| "process_files e n ((j, fname) # rest) i w =
     (case process_file e n j fname w of
        (Inl x, w') \<Rightarrow> (Inl x, w')
      | (Inr u, w') \<Rightarrow> process_files e n rest (Some j) w')"

definition selected_files :: "env \<Rightarrow> world \<Rightarrow> string list \<Rightarrow> string list \<Rightarrow> string list" where
  "selected_files e w current_files guids_list =
     filter (\<lambda>f. split0 f \<in> to_add_of current_files guids_list (query_completed e w)) current_files"

definition insert_files_into_server :: "env \<Rightarrow> world \<Rightarrow> (error + pyval) \<times> world" where
  "insert_files_into_server e w =
     (case list_files e of
        Inl x \<Rightarrow> (Inl x, w)
      | Inr None \<Rightarrow> (Inr (PyDict [(''added'', PyInt 0)]), w)
      | Inr (Some current_files) \<Rightarrow>
          (case guids e of
             Inl x \<Rightarrow> (Inl x, w)
           | Inr guids_list \<Rightarrow>
               (let to_add = to_add_of current_files guids_list (query_completed e w);
                    current_files = selected_files e w current_files guids_list;
                    bc = \<lparr>bc_host_name = self_host_name e,
                          bc_findneighbour_server_url = self_findneighbour_server_url e,
                          bc_batch_size = length current_files,
                          bc_number_in_server = length guids_list\<rparr>;
                    w = w\<lparr>db := db w @ [BatchLoadCheck bc]\<rparr>
                in case process_files e (card to_add) (enumerate 0 current_files) None w of
                     (Inl x, w') \<Rightarrow> (Inl x, w')
                   | (Inr None, w') \<Rightarrow> (Inl (UnboundLocalError ''i''), w')
                   | (Inr (Some i), w') \<Rightarrow> (Inr (PyDict [(''added'', PyInt (int i))]), w'))))"

section \<open>The main loop\<close>

text \<open>
  \<^verbatim>\<open>while True: n_inserted = os2fn4.insert_files_into_server(); if n_inserted == 0:
  time.sleep(180)\<close>. The loop has no exit; the list gives what each coming pass will see
  of the outside, and the result is the exception that ended the process, or \<^verbatim>\<open>None\<close>
  when the loop is still running after these passes.
\<close>

fun main_loop :: "env list \<Rightarrow> world \<Rightarrow> error option \<times> world" where
  "main_loop [] w = (None, w)"
| "main_loop (e # es) w =
     (case insert_files_into_server e w of
        (Inl x, w') \<Rightarrow> (Some x, w')
      | (Inr n_inserted, w') \<Rightarrow>
          main_loop es
            (if py_eq n_inserted (PyInt 0) then w'\<lparr>sleeps := sleeps w' @ [180]\<rparr> else w'))"

section \<open>The candidate set in the words of the specification\<close>

text \<open>
  The specification's \<open>L\<close>: the identities that have at least one attempt with
  \<^verbatim>\<open>completed\<close> true for this target and host; and its candidate set \<open>S - R - L\<close>.
\<close>

definition spec_completed_identities :: "env \<Rightarrow> world \<Rightarrow> string set" where
  "spec_completed_identities e w =
     set (List.map_filter fn4id
            (filter (\<lambda>r. host_name r = self_host_name e
                       \<and> findneighbour_server_url r = self_findneighbour_server_url e
                       \<and> completed r = 1)
               (load_attempts (db w))))"

definition spec_candidate_set :: "string set \<Rightarrow> string set \<Rightarrow> string set \<Rightarrow> string set" where
  "spec_candidate_set S R L = S - R - L"

section \<open>Concrete runs\<close>

definition world_empty :: world where
  "world_empty = \<lparr>db = [], posts = [], sleeps = []\<rparr>"

text \<open>One object \<^verbatim>\<open>a.fasta\<close> holding the single record \<^verbatim>\<open>GPAS_SP3|a\<close>; a server that
  lists no guid and answers 200 to an insert.\<close>

definition env_single :: env where
  "env_single =
     \<lparr>self_host_name = ''fn4dev'',
      self_findneighbour_server_url = ''http://localhost:5025'',
      list_objects = Inr [''a.fasta''],
      get_object = (\<lambda>object_name. Inr ''>GPAS_SP3|a\<newline>ACGT\<newline>''),
      SeqIO_parse = (\<lambda>file_content. [\<lparr>rec_id = ''GPAS_SP3|a'', rec_seq = ''ACGT''\<rparr>]),
      get_guids = Inr (200, []),
      post_insert = (\<lambda>guid seq. Inr 200)\<rparr>"

text \<open>The state a pass in \<open>env_single\<close> leaves: the sample is recorded as completed.\<close>

definition world_completed :: world where
  "world_completed =
     \<lparr>db = [BatchLoadCheck
              \<lparr>bc_host_name = ''fn4dev'',
               bc_findneighbour_server_url = ''http://localhost:5025'',
               bc_batch_size = 1, bc_number_in_server = 0\<rparr>,
            LoadAttempt
              \<lparr>host_name = ''fn4dev'',
               findneighbour_server_url = ''http://localhost:5025'',
               parse_status = ''Success'', batch_sample_number = 0,
               batch_size = 1, seqid = Some ''GPAS_SP3|a'',
               file_name = ''a.fasta'', len_seq = Some 4,
               first_128_chars = ''>GPAS_SP3|a\<newline>ACGT\<newline>'', fn4id = Some ''a'',
               insert_status_code = Some 200, completed = 1\<rparr>],
      posts = [(''a'', ''ACGT'')], sleeps = []\<rparr>"

text \<open>The object is named for sample \<^verbatim>\<open>A\<close> and holds the record of sample \<^verbatim>\<open>B\<close>.\<close>

definition env_mismatch :: env where
  "env_mismatch =
     env_single
       \<lparr>list_objects := Inr [''GPAS_SP3|A.fasta''],
        get_object := (\<lambda>object_name. Inr ''>GPAS_SP3|B\<newline>ACGT\<newline>''),
        SeqIO_parse := (\<lambda>file_content. [\<lparr>rec_id = ''GPAS_SP3|B'', rec_seq = ''ACGT''\<rparr>])\<rparr>"

text \<open>The server answers 404 to the insert.\<close>

definition env_not_found :: env where
  "env_not_found = env_single\<lparr>post_insert := (\<lambda>guid seq. Inr 404)\<rparr>"

text \<open>The bucket holds no object.\<close>

definition env_no_objects :: env where
  "env_no_objects = env_single\<lparr>list_objects := Inr []\<rparr>"

text \<open>Two objects; the first has gone when it is read.\<close>

definition env_fetch_fails :: env where
  "env_fetch_fails =
     env_single
       \<lparr>list_objects := Inr [''a.fasta'', ''b.fasta''],
        get_object := (\<lambda>object_name.
           if object_name = ''a.fasta'' then Inl (ServiceError ''ObjectNotFound'')
           else Inr ''>GPAS_SP3|b\<newline>ACGT\<newline>''),
        SeqIO_parse := (\<lambda>file_content. [\<lparr>rec_id = ''GPAS_SP3|b'', rec_seq = ''ACGT''\<rparr>])\<rparr>"

text \<open>The object holds two records.\<close>

definition env_multifasta :: env where
  "env_multifasta =
     env_single
       \<lparr>get_object := (\<lambda>object_name. Inr ''>GPAS_SP3|a\<newline>ACGT\<newline>>GPAS_SP3|b\<newline>AC\<newline>''),
        SeqIO_parse := (\<lambda>file_content.
           [\<lparr>rec_id = ''GPAS_SP3|a'', rec_seq = ''ACGT''\<rparr>,
            \<lparr>rec_id = ''GPAS_SP3|b'', rec_seq = ''AC''\<rparr>])\<rparr>"

text \<open>The server already lists the only sample of the bucket.\<close>

definition env_all_loaded :: env where
  "env_all_loaded = env_single\<lparr>get_guids := Inr (200, [''a''])\<rparr>"

text \<open>The only record of the object does not carry the tag.\<close>

definition env_untagged :: env where
  "env_untagged =
     env_single
       \<lparr>get_object := (\<lambda>object_name. Inr ''>sampleA\<newline>ACGT\<newline>''),
        SeqIO_parse := (\<lambda>file_content. [\<lparr>rec_id = ''sampleA'', rec_seq = ''ACGT''\<rparr>])\<rparr>"

text \<open>The object is empty.\<close>

definition env_no_record :: env where
  "env_no_record =
     env_single\<lparr>get_object := (\<lambda>object_name. Inr []), SeqIO_parse := (\<lambda>file_content. [])\<rparr>"

section \<open>Properties of the stages\<close>

lemma str_remove_Nil [simp]: "str_remove old [] = []"
  by (simp add: str_remove.simps)

lemma str_remove_Cons:
  "str_remove (a # old) (c # cs) =
     (if prefix (a # old) (c # cs) then str_remove (a # old) (drop (length old) cs)
      else c # str_remove (a # old) cs)"
  by (subst str_remove.simps) simp

lemma filename2fn4id_None_iff: "(filename2fn4id x = None) = (\<not> prefix ''GPAS_SP3'' x)"
  by (simp add: filename2fn4id_def)

lemma query_completed_Nil: "query_completed e w = []"
  by (simp add: query_completed_def py_eq_def)

lemma to_add_of_query: "to_add_of cf gs (query_completed e w) = set (map split0 cf) - set gs"
  by (auto simp add: to_add_of_def query_completed_Nil)

lemma parse_records_later:
  "1 \<le> nF \<Longrightarrow>
   parse_records f recs (nF, r, s) =
     (nF + length recs, if recs = [] then r else r\<lparr>parse_status := ''Failed, multifasta''\<rparr>, s)"
  by (induction recs arbitrary: nF r) auto

lemma content_parser_empty:
  "SeqIO_parse e c = [] \<Longrightarrow> content_parser e n i f c = (0, initial_res e n i f c, None)"
  by (simp add: content_parser_def)

lemma content_parser_single:
  "SeqIO_parse e c = [x] \<Longrightarrow>
   content_parser e n i f c =
     (1, (initial_res e n i f c)\<lparr>parse_status := ''Success'', seqid := Some (rec_id x),
          file_name := f, len_seq := Some (length (rec_seq x))\<rparr>, Some (rec_seq x))"
  by (simp add: content_parser_def)

lemma content_parser_multi:
  "SeqIO_parse e c = x # y # rest \<Longrightarrow>
   content_parser e n i f c =
     (2 + length rest, (initial_res e n i f c)\<lparr>parse_status := ''Failed, multifasta'', seqid := Some (rec_id x),
          file_name := f, len_seq := Some (length (rec_seq x))\<rparr>, Some (rec_seq x))"
  by (simp add: content_parser_def parse_records_later)

lemma content_parser_fn4id: "fn4id (fst (snd (content_parser e n i f c))) = None"
proof (cases "SeqIO_parse e c")
  case Nil
  then show ?thesis by (simp add: content_parser_empty initial_res_def)
next
  case (Cons x rest)
  then show ?thesis
    by (cases rest) (simp_all add: content_parser_single content_parser_multi initial_res_def)
qed

lemma content_parser_file_name: "file_name (fst (snd (content_parser e n i f c))) = f"
proof (cases "SeqIO_parse e c")
  case Nil
  then show ?thesis by (simp add: content_parser_empty initial_res_def)
next
  case (Cons x rest)
  then show ?thesis
    by (cases rest) (simp_all add: content_parser_single content_parser_multi initial_res_def)
qed

lemma check_seqid_file_name: "check_seqid r = Inr r' \<Longrightarrow> file_name r' = file_name r"
  by (auto simp add: check_seqid_def Let_def split: if_splits option.splits)

lemma submit_file_name: "submit e r s w = (Inr r', w') \<Longrightarrow> file_name r' = file_name r"
  by (auto simp add: submit_def split: option.splits prod.splits sum.splits)

lemma submit_db: "submit e r s w = (y, w') \<Longrightarrow> db w' = db w \<and> sleeps w' = sleeps w"
  by (auto simp add: submit_def priv_insert_def Let_def split: option.splits prod.splits sum.splits)

lemma attempt_row_file_name [simp]: "file_name (attempt_row r) = file_name r"
  by (simp add: attempt_row_def res.defs FN4LoadAttempt.defs)

lemma attempt_row_sel [simp]:
  "parse_status (attempt_row r) = parse_status r"
  "insert_status_code (attempt_row r) = insert_status_code r"
  "fn4id (attempt_row r) = fn4id r"
  "seqid (attempt_row r) = seqid r"
  "len_seq (attempt_row r) = len_seq r"
  "completed (attempt_row r) = move_file_of r"
  by (simp_all add: attempt_row_def res.defs FN4LoadAttempt.defs)

lemma build_attempt_db: "build_attempt e n i f w = (y, w') \<Longrightarrow> db w' = db w \<and> sleeps w' = sleeps w"
  by (auto simp add: build_attempt_def split: sum.splits prod.splits dest: submit_db)

lemma build_attempt_Inr:
  assumes "build_attempt e n i f w = (Inr row, w')"
  shows "\<exists>c nF r0 s r1 r2. get_object e f = Inr c \<and> content_parser e n i f c = (nF, r0, s)
           \<and> check_seqid r0 = Inr r1 \<and> submit e r1 s w = (Inr r2, w') \<and> row = attempt_row r2"
  using assms
  by (auto simp add: build_attempt_def load_bucket_into_string_def split: sum.splits prod.splits)

lemma build_attempt_row:
  assumes "build_attempt e n i f w = (Inr row, w')"
  shows "file_name row = f \<and> (\<exists>c. get_object e f = Inr c)"
proof -
  from build_attempt_Inr [OF assms] obtain c nF r0 s r1 r2 where
    c: "get_object e f = Inr c" and p: "content_parser e n i f c = (nF, r0, s)"
    and k: "check_seqid r0 = Inr r1" and u: "submit e r1 s w = (Inr r2, w')"
    and row: "row = attempt_row r2"
    by blast
  have "file_name r0 = f"
    using content_parser_file_name [of e n i f c] p by simp
  with check_seqid_file_name [OF k] submit_file_name [OF u] row c show ?thesis
    by simp
qed

lemma move_file_of_iff:
  "(move_file_of r = 1) = (parse_status r \<noteq> ''Success'' \<or> insert_status_code r = Some 200)"
  "move_file_of r \<noteq> 1 \<Longrightarrow> move_file_of r = 0"
  by (auto simp add: move_file_of_def Let_def split: if_splits)

lemma build_attempt_completed:
  assumes "build_attempt e n i f w = (Inr row, w')"
  shows "(completed row = 1) = (parse_status row \<noteq> ''Success'' \<or> insert_status_code row = Some 200)
         \<and> (completed row \<noteq> 1 \<longrightarrow> completed row = 0)"
proof -
  from build_attempt_Inr [OF assms] obtain r2 where "row = attempt_row r2"
    by blast
  then show ?thesis
    by (simp add: move_file_of_iff)
qed

lemma process_file_Inl: "process_file e n i f w = (Inl x, w') \<Longrightarrow> db w' = db w \<and> sleeps w' = sleeps w"
  by (auto simp add: process_file_def split: sum.splits prod.splits dest: build_attempt_db)

lemma process_file_Inr:
  "process_file e n i f w = (Inr u, w') \<Longrightarrow>
   \<exists>row w1. build_attempt e n i f w = (Inr row, w1) \<and> w' = w1\<lparr>db := db w1 @ [LoadAttempt row]\<rparr>"
  by (auto simp add: process_file_def split: sum.splits prod.splits)



lemma process_files_rows:
  "\<exists>rows. db (snd (process_files e n xs i w)) = db w @ map LoadAttempt rows
      \<and> (\<forall>a \<in> set rows. \<exists>c. get_object e (file_name a) = Inr c)
      \<and> sleeps (snd (process_files e n xs i w)) = sleeps w"
proof (induction xs arbitrary: i w)
  case Nil
  have "db (snd (process_files e n [] i w)) = db w @ map LoadAttempt []" by simp
  then show ?case by fastforce
next
  case (Cons p xs)
  obtain j f where p: "p = (j, f)" by (cases p)
  show ?case
  proof (cases "process_file e n j f w")
    case (Pair y w')
    show ?thesis
    proof (cases y)
      case (Inl x')
      with Pair p process_file_Inl [of e n j f w x' w']
      have "db (snd (process_files e n (p # xs) i w)) = db w @ map LoadAttempt []"
        and "sleeps (snd (process_files e n (p # xs) i w)) = sleeps w"
        by simp_all
      then show ?thesis by fastforce
    next
      case (Inr u)
      with Pair have ok: "process_file e n j f w = (Inr u, w')" by simp
      from process_file_Inr [OF ok] obtain row w1 where
        b: "build_attempt e n j f w = (Inr row, w1)" and w': "w' = w1\<lparr>db := db w1 @ [LoadAttempt row]\<rparr>"
        by blast
      from build_attempt_db [OF b] w' have dbw': "db w' = db w @ [LoadAttempt row]" and sl: "sleeps w' = sleeps w"
        by simp_all
      from build_attempt_row [OF b] have fr: "\<exists>c. get_object e (file_name row) = Inr c"
        by simp
      from Cons.IH [of "Some j" w'] obtain rows where
        r: "db (snd (process_files e n xs (Some j) w')) = db w' @ map LoadAttempt rows"
        and g: "\<forall>a \<in> set rows. \<exists>c. get_object e (file_name a) = Inr c"
        and s: "sleeps (snd (process_files e n xs (Some j) w')) = sleeps w'"
        by blast
      have eq: "process_files e n (p # xs) i w = process_files e n xs (Some j) w'"
        using ok p by simp
      have "db (snd (process_files e n (p # xs) i w)) = db w @ map LoadAttempt (row # rows)"
        using eq r dbw' by simp
      moreover have "\<forall>a \<in> set (row # rows). \<exists>c. get_object e (file_name a) = Inr c"
        using g fr by simp
      moreover have "sleeps (snd (process_files e n (p # xs) i w)) = sleeps w"
        using eq s sl by simp
      ultimately show ?thesis by blast
    qed
  qed
qed

lemma process_files_Nil_result: "process_files e n [] None w = (Inr None, w)"
  by simp

lemma submit_None: "fn4id r = None \<Longrightarrow> submit e r s w = (Inr r, w)"
  by (simp add: submit_def)

lemma build_attempt_single:
  assumes "get_object e fname = Inr c" and "SeqIO_parse e c = [x]"
  shows "build_attempt e n i fname w =
     (if prefix ''GPAS_SP3'' (rec_id x) then
        (case post_insert e (str_remove ''GPAS_SP3|'' (rec_id x)) (rec_seq x) of
           Inl err \<Rightarrow> (Inl err, w\<lparr>posts := posts w @ [(str_remove ''GPAS_SP3|'' (rec_id x), rec_seq x)]\<rparr>)
         | Inr code \<Rightarrow>
             (case getpost_check code of
                Inl err \<Rightarrow> (Inl err, w\<lparr>posts := posts w @ [(str_remove ''GPAS_SP3|'' (rec_id x), rec_seq x)]\<rparr>)
              | Inr k \<Rightarrow>
                 (Inr (attempt_row ((initial_res e n i fname c)
                         \<lparr>parse_status := ''Success'', seqid := Some (rec_id x), file_name := fname,
                          len_seq := Some (length (rec_seq x)),
                          fn4id := Some (str_remove ''GPAS_SP3|'' (rec_id x)),
                          insert_status_code := Some k\<rparr>)),
                  w\<lparr>posts := posts w @ [(str_remove ''GPAS_SP3|'' (rec_id x), rec_seq x)]\<rparr>)))
      else
        (Inr (attempt_row ((initial_res e n i fname c)
                \<lparr>parse_status := ''Failed, seqid does not start with GPAS'', seqid := Some (rec_id x),
                 file_name := fname, len_seq := Some (length (rec_seq x))\<rparr>)), w))"
  using assms
  by (simp add: build_attempt_def load_bucket_into_string_def content_parser_single check_seqid_def
      filename2fn4id_def submit_def priv_insert_def Let_def initial_res_def split: sum.splits)


lemma pass_rows:
  assumes "list_files e = Inr (Some cf)" and "guids e = Inr gs"
  shows "\<exists>rows. db (snd (insert_files_into_server e w)) =
            db w @ BatchLoadCheck
                     \<lparr>bc_host_name = self_host_name e,
                      bc_findneighbour_server_url = self_findneighbour_server_url e,
                      bc_batch_size = length (selected_files e w cf gs),
                      bc_number_in_server = length gs\<rparr>
                   # map LoadAttempt rows
          \<and> (\<forall>a \<in> set rows. \<exists>c. get_object e (file_name a) = Inr c)"
proof -
  define bc where "bc = \<lparr>bc_host_name = self_host_name e,
                      bc_findneighbour_server_url = self_findneighbour_server_url e,
                      bc_batch_size = length (selected_files e w cf gs),
                      bc_number_in_server = length gs\<rparr>"
  define w1 where "w1 = w\<lparr>db := db w @ [BatchLoadCheck bc]\<rparr>"
  define n where "n = card (to_add_of cf gs (query_completed e w))"
  define xs where "xs = enumerate 0 (selected_files e w cf gs)"
  have "db (snd (insert_files_into_server e w)) = db (snd (process_files e n xs None w1))"
    using assms
    by (simp add: insert_files_into_server_def Let_def bc_def w1_def n_def xs_def
        split: prod.splits sum.splits option.splits)
  moreover from process_files_rows [of e n xs None w1] obtain rows where
    "db (snd (process_files e n xs None w1)) = db w1 @ map LoadAttempt rows"
    and "\<forall>a \<in> set rows. \<exists>c. get_object e (file_name a) = Inr c"
    by blast
  ultimately show ?thesis
    unfolding bc_def [symmetric] by (auto simp add: w1_def)
qed



lemma main_loop_never_sleeps: "sleeps (snd (main_loop es w)) = sleeps w"
proof (induction es arbitrary: w)
  case Nil
  show ?case by simp
next
  case (Cons e es)
  show ?case
  proof (cases "insert_files_into_server e w")
    case (Pair y w')
    have sl: "sleeps w' = sleeps w"
    proof -
      have "sleeps (snd (insert_files_into_server e w)) = sleeps w"
        using process_files_rows [of e _ _ None "w\<lparr>db := db w @ [BatchLoadCheck b]\<rparr>" for b]
        by (auto simp add: insert_files_into_server_def Let_def split: sum.splits option.splits prod.splits)
           (metis snd_conv)+
      with Pair show ?thesis by simp
    qed
    show ?thesis
    proof (cases y)
      case (Inl x)
      with Pair sl show ?thesis by simp
    next
      case (Inr v)
      have "\<not> py_eq v (PyInt 0)"
        using Pair Inr
        by (auto simp add: insert_files_into_server_def Let_def py_eq_def split: sum.splits option.splits prod.splits)
      with Pair Inr Cons.IH [of w'] sl show ?thesis by simp
    qed
  qed
qed

section \<open>Evaluating the concrete runs\<close>

lemmas run_defs =
  insert_files_into_server_def list_files_def guids_def getpost_check_def raise_for_status_def
  selected_files_def to_add_of_query split0_def process_file_def build_attempt_def
  load_bucket_into_string_def content_parser_def initial_res_def check_seqid_def
  filename2fn4id_def str_remove_Cons submit_def priv_insert_def attempt_row_def move_file_of_def
  enumerate_eq_zip res.defs FN4LoadAttempt.defs py_eq_def

lemmas env_defs =
  world_empty_def env_single_def world_completed_def env_mismatch_def env_not_found_def
  env_no_objects_def env_fetch_fails_def env_multifasta_def env_all_loaded_def
  env_untagged_def env_no_record_def

text \<open>\<open>world_completed\<close> is the state after one pass in \<open>env_single\<close> from the empty state.\<close>

lemma world_completed_reached:
  "insert_files_into_server env_single world_empty = (Inr (PyDict [(''added'', PyInt 0)]), world_completed)"
  by (simp add: run_defs env_defs)

section \<open>The claims\<close>

subsection \<open>The candidate set\<close>

text \<open>
  C1. The specification has the candidate set of a pass equal to \<open>S - R - L\<close>, with \<open>L\<close>
  the identities of the attempts recorded with \<^verbatim>\<open>completed\<close> true, so that a sample
  completed once is never selected again. The query of the code filters on the constant
  \<^verbatim>\<open>False\<close> and returns no row, and the candidate set is \<open>S - R\<close>: in the state left by a
  pass that recorded sample \<^verbatim>\<open>a\<close> as completed, with the server still listing no guid,
  \<open>L\<close> is \<open>{a}\<close> and \<open>S - R - L\<close> is empty, and the code selects \<^verbatim>\<open>a.fasta\<close> and posts
  the sample a second time.
\<close>

theorem completed_sample_selected_again:
  "spec_completed_identities env_single world_completed = {''a''}
   \<and> spec_candidate_set (set (map split0 [''a.fasta''])) (set []) (spec_completed_identities env_single world_completed) = {}
   \<and> to_add_of [''a.fasta''] [] (query_completed env_single world_completed) = {''a''}
   \<and> selected_files env_single world_completed [''a.fasta''] [] = [''a.fasta'']
   \<and> posts (snd (insert_files_into_server env_single world_completed)) = [(''a'', ''ACGT''), (''a'', ''ACGT'')]"
  by (simp add: run_defs env_defs spec_completed_identities_def spec_candidate_set_def List.map_filter_def)

subsection \<open>The check of the sequence identifier\<close>




subsection \<open>The completed flag\<close>

text \<open>
  C3, as the code has it. For an item that parses to one record with the tag and whose
  insert is answered with a code below 500 other than 200, the attempt is written with
  status \<^verbatim>\<open>Success\<close>, with that code, and with \<^verbatim>\<open>completed = 0\<close>.
\<close>

theorem rejected_insert_not_completed:
  assumes "get_object e fname = Inr c" and "SeqIO_parse e c = [x]"
    and "prefix ''GPAS_SP3'' (rec_id x)"
    and "post_insert e (str_remove ''GPAS_SP3|'' (rec_id x)) (rec_seq x) = Inr code"
    and "code < 500" and "code \<noteq> 200"
  shows "\<exists>row. fst (process_file e n i fname w) = Inr ()
           \<and> db (snd (process_file e n i fname w)) = db w @ [LoadAttempt row]
           \<and> parse_status row = ''Success''
           \<and> insert_status_code row = Some code
           \<and> completed row = 0"
  using assms(3-6)
  by (simp add: process_file_def build_attempt_single [OF assms(1,2)] getpost_check_def
      initial_res_def move_file_of_def)

theorem rejected_insert_not_completed_witness:
  "get_object env_not_found ''a.fasta'' = Inr ''>GPAS_SP3|a\<newline>ACGT\<newline>''
   \<and> SeqIO_parse env_not_found ''>GPAS_SP3|a\<newline>ACGT\<newline>'' = [\<lparr>rec_id = ''GPAS_SP3|a'', rec_seq = ''ACGT''\<rparr>]
   \<and> prefix ''GPAS_SP3'' ''GPAS_SP3|a''
   \<and> post_insert env_not_found ''a'' ''ACGT'' = Inr 404
   \<and> (404::int) < 500 \<and> (404::int) \<noteq> 200
   \<and> (\<exists>row. fst (process_file env_not_found 1 0 ''a.fasta'' world_empty) = Inr ()
          \<and> db (snd (process_file env_not_found 1 0 ''a.fasta'' world_empty)) = [LoadAttempt row]
          \<and> parse_status row = ''Success''
          \<and> insert_status_code row = Some 404
          \<and> completed row = 0)"
proof -
  let ?x = "\<lparr>rec_id = ''GPAS_SP3|a'', rec_seq = ''ACGT''\<rparr>"
  have g: "get_object env_not_found ''a.fasta'' = Inr ''>GPAS_SP3|a\<newline>ACGT\<newline>''"
    and p: "SeqIO_parse env_not_found ''>GPAS_SP3|a\<newline>ACGT\<newline>'' = [?x]"
    and t: "prefix ''GPAS_SP3'' (rec_id ?x)"
    and r: "post_insert env_not_found (str_remove ''GPAS_SP3|'' (rec_id ?x)) (rec_seq ?x) = Inr 404"
    and r': "post_insert env_not_found ''a'' ''ACGT'' = Inr 404"
    by (simp_all add: env_defs)
  have c: "(404::int) < 500" "(404::int) \<noteq> 200"
    by simp_all
  from rejected_insert_not_completed [OF g p t r c, of 1 0 world_empty]
  have "\<exists>row. fst (process_file env_not_found 1 0 ''a.fasta'' world_empty) = Inr ()
          \<and> db (snd (process_file env_not_found 1 0 ''a.fasta'' world_empty)) = [LoadAttempt row]
          \<and> parse_status row = ''Success''
          \<and> insert_status_code row = Some 404
          \<and> completed row = 0"
    by (simp add: world_empty_def)
  with g p t r' c show ?thesis
    by simp
qed

text \<open>An insert answered with 404 is recorded with \<^verbatim>\<open>completed = 0\<close>.\<close>

theorem not_found_leaves_incomplete:
  "map parse_status (load_attempts (db (snd (insert_files_into_server env_not_found world_empty)))) = [''Success'']
   \<and> map insert_status_code (load_attempts (db (snd (insert_files_into_server env_not_found world_empty)))) = [Some 404]
   \<and> map completed (load_attempts (db (snd (insert_files_into_server env_not_found world_empty)))) = [0]"
  by (simp add: run_defs env_defs)

text \<open>
  C4. For every item that reaches the recording step, the row that is written has
  \<^verbatim>\<open>completed = 1\<close> exactly when its status is not \<^verbatim>\<open>Success\<close> or its status code is
  200, and \<^verbatim>\<open>completed = 0\<close> otherwise.
\<close>

theorem completed_iff_failed_or_accepted:
  assumes "process_file e n i fname w = (Inr u, w')"
  shows "\<exists>row. db w' = db w @ [LoadAttempt row]
           \<and> (completed row = 1) = (parse_status row \<noteq> ''Success'' \<or> insert_status_code row = Some 200)
           \<and> (completed row \<noteq> 1 \<longrightarrow> completed row = 0)"
proof -
  from process_file_Inr [OF assms] obtain row w1 where
    b: "build_attempt e n i fname w = (Inr row, w1)" and w': "w' = w1\<lparr>db := db w1 @ [LoadAttempt row]\<rparr>"
    by blast
  from build_attempt_db [OF b] w' have "db w' = db w @ [LoadAttempt row]"
    by simp
  with build_attempt_completed [OF b] show ?thesis
    by blast
qed

theorem completed_iff_failed_or_accepted_witness:
  "fst (process_file env_single 1 0 ''a.fasta'' world_empty) = Inr ()
   \<and> (\<exists>row. db (snd (process_file env_single 1 0 ''a.fasta'' world_empty)) = [LoadAttempt row]
          \<and> (completed row = 1) = (parse_status row \<noteq> ''Success'' \<or> insert_status_code row = Some 200)
          \<and> (completed row \<noteq> 1 \<longrightarrow> completed row = 0))"
proof -
  have f: "fst (process_file env_single 1 0 ''a.fasta'' world_empty) = Inr ()"
    by (simp add: run_defs env_defs)
  then have "process_file env_single 1 0 ''a.fasta'' world_empty =
      (Inr (), snd (process_file env_single 1 0 ''a.fasta'' world_empty))"
    by (metis prod.collapse)
  from completed_iff_failed_or_accepted [OF this] f show ?thesis
    by (simp add: world_empty_def)
qed

subsection \<open>The poll loop\<close>

text \<open>
  C5. The specification has the loop sleep after a pass that found no work. The loop compares
  the dictionary returned by the pass with the integer 0, which is never equal: on an empty
  bucket the pass returns \<^verbatim>\<open>{"added": 0}\<close> and two such passes in a row record no call of
  \<^verbatim>\<open>time.sleep\<close>.
\<close>

theorem idle_pass_does_not_sleep:
  "insert_files_into_server env_no_objects world_empty = (Inr (PyDict [(''added'', PyInt 0)]), world_empty)
   \<and> sleeps (snd (main_loop [env_no_objects, env_no_objects] world_empty)) = []"
  by (simp add: run_defs env_defs)

subsection \<open>A failing read of an object\<close>




subsection \<open>The identity extractor\<close>

text \<open>
  C7. The specification, like the docstring of \<^verbatim>\<open>filename2fn4id\<close>, has the extractor
  remove the tag and everything from the first dot on. The code removes \<^verbatim>\<open>GPAS_SP3|\<close>
  only: \<^verbatim>\<open>GPAS_SP3|ABC.fasta\<close> gives \<^verbatim>\<open>ABC.fasta\<close>.
\<close>

theorem prefix_removed_suffix_kept:
  "filename2fn4id ''GPAS_SP3|ABC.fasta'' = Some ''ABC.fasta''"
  by (simp add: filename2fn4id_def str_remove_Cons)

subsection \<open>The content parser\<close>



subsection \<open>The batch check\<close>

text \<open>
  C9, as the code has it. A pass whose listing is not empty and whose query of the guids
  succeeds writes exactly one batch check, before every attempt of the pass, with
  \<^verbatim>\<open>batch_size\<close> the number of objects selected and \<^verbatim>\<open>number_in_server\<close> the length
  of the list of guids; a pass over an empty bucket writes no row.
\<close>

theorem one_batch_check_before_attempts:
  "(list_files e = Inr (Some cf) \<and> guids e = Inr gs \<longrightarrow>
      (\<exists>rows. db (snd (insert_files_into_server e w)) =
            db w @ BatchLoadCheck
                     \<lparr>bc_host_name = self_host_name e,
                      bc_findneighbour_server_url = self_findneighbour_server_url e,
                      bc_batch_size = length (selected_files e w cf gs),
                      bc_number_in_server = length gs\<rparr>
                   # map LoadAttempt rows))
   \<and> (list_files e = Inr None \<longrightarrow> db (snd (insert_files_into_server e w)) = db w)"
proof (intro conjI impI)
  assume "list_files e = Inr (Some cf) \<and> guids e = Inr gs"
  then have "list_files e = Inr (Some cf)" and "guids e = Inr gs"
    by simp_all
  from pass_rows [OF this, of w] show "\<exists>rows. db (snd (insert_files_into_server e w)) =
            db w @ BatchLoadCheck
                     \<lparr>bc_host_name = self_host_name e,
                      bc_findneighbour_server_url = self_findneighbour_server_url e,
                      bc_batch_size = length (selected_files e w cf gs),
                      bc_number_in_server = length gs\<rparr>
                   # map LoadAttempt rows"
    by blast
next
  assume "list_files e = Inr None"
  then show "db (snd (insert_files_into_server e w)) = db w"
    by (simp add: insert_files_into_server_def)
qed

theorem one_batch_check_before_attempts_witness:
  "list_files env_single = Inr (Some [''a.fasta'']) \<and> guids env_single = Inr []
   \<and> (\<exists>rows. db (snd (insert_files_into_server env_single world_empty)) =
            BatchLoadCheck
                     \<lparr>bc_host_name = ''fn4dev'',
                      bc_findneighbour_server_url = ''http://localhost:5025'',
                      bc_batch_size = 1,
                      bc_number_in_server = 0\<rparr>
                   # map LoadAttempt rows)
   \<and> list_files env_no_objects = Inr None
   \<and> db (snd (insert_files_into_server env_no_objects world_empty)) = []"
proof -
  have l: "list_files env_single = Inr (Some [''a.fasta''])"
    and g: "guids env_single = Inr []"
    and l0: "list_files env_no_objects = Inr None"
    by (simp_all add: run_defs env_defs)
  have n: "length (selected_files env_single world_empty [''a.fasta''] []) = 1"
    by (simp add: run_defs)
  from one_batch_check_before_attempts [of env_single "[''a.fasta'']" "[]" world_empty] l g
  have a: "\<exists>rows. db (snd (insert_files_into_server env_single world_empty)) =
            BatchLoadCheck
                     \<lparr>bc_host_name = ''fn4dev'',
                      bc_findneighbour_server_url = ''http://localhost:5025'',
                      bc_batch_size = 1,
                      bc_number_in_server = 0\<rparr>
                   # map LoadAttempt rows"
    by (simp add: n) (simp add: env_defs)
  from one_batch_check_before_attempts [of env_no_objects "[]" "[]" world_empty] l0
  have b: "db (snd (insert_files_into_server env_no_objects world_empty)) = []"
    by (simp add: world_empty_def)
  from l g a l0 b show ?thesis
    by blast
qed

text \<open>
  The batch check of a pass is the first row, the attempt follows it; on an empty bucket
  there is no batch check.
\<close>

theorem batch_check_precedes_attempts:
  "db (snd (insert_files_into_server env_single world_empty)) =
     [BatchLoadCheck
              \<lparr>bc_host_name = ''fn4dev'',
               bc_findneighbour_server_url = ''http://localhost:5025'',
               bc_batch_size = 1, bc_number_in_server = 0\<rparr>,
            LoadAttempt
              \<lparr>host_name = ''fn4dev'',
               findneighbour_server_url = ''http://localhost:5025'',
               parse_status = ''Success'', batch_sample_number = 0,
               batch_size = 1, seqid = Some ''GPAS_SP3|a'',
               file_name = ''a.fasta'', len_seq = Some 4,
               first_128_chars = ''>GPAS_SP3|a\<newline>ACGT\<newline>'', fn4id = Some ''a'',
               insert_status_code = Some 200, completed = 1\<rparr>]
   \<and> db (snd (insert_files_into_server env_no_objects world_empty)) = []"
  by (simp add: run_defs env_defs)

subsection \<open>The unbound loop variable\<close>



end
